theory Spec2Isabelle
  imports Complex_Main
begin

section \<open>Tensors\<close>

text \<open>
  A tensor value is its shape and its elements in row-major order. Elements are real
  numbers: rounding and NaN are outside this development.
\<close>

record tensor =
  shape :: "nat list"
  data :: "real list"

definition wf_tensor :: "tensor \<Rightarrow> bool" where
  "wf_tensor t = (length (data t) = prod_list (shape t))"

text \<open>\<^verbatim>\<open>torch.zeros(shape)\<close>\<close>

definition zeros :: "nat list \<Rightarrow> tensor" where
  "zeros shp = \<lparr>shape = shp, data = replicate (prod_list shp) 0\<rparr>"

text \<open>Element-wise sum, as used when a gradient is accumulated into an existing one.\<close>

definition tensor_add :: "tensor \<Rightarrow> tensor \<Rightarrow> tensor" where
  "tensor_add t u = \<lparr>shape = shape u, data = map2 (+) (data t) (data u)\<rparr>"

section \<open>Errors\<close>

text \<open>
  An exception leaving \<^verbatim>\<open>calculate_gradient\<close> is tagged by the statement that raises
  it: setting \<^verbatim>\<open>requires_grad\<close> (line 62), the forward pass (line 68), the seed
  construction and indexing (lines 73 and 77), the backward pass itself or a hook running
  inside it (line 81), reading the buffer and selecting the batch element \<^verbatim>\<open>[0]\<close>
  (line 85) and the channel maximum (line 90). Exhausted memory and a missing device are
  not modelled. \<open>NoSuchTensor\<close> stands for an address outside the store, which no Python
  name can hold.
\<close>

datatype error =
    RequiresGradError
  | ForwardError
  | SeedError
  | BackwardError
  | HookError
  | BatchIndexError
  | ChannelMaxError
  | NoSuchTensor

section \<open>Tensor objects and the store\<close>

datatype device = Cpu | Cuda

text \<open>
  A tensor object as the caller holds it: its value, its device, its \<^verbatim>\<open>requires_grad\<close>
  flag, whether it is a leaf of the autograd graph (\<^verbatim>\<open>is_leaf\<close>), whether its dtype
  is a floating-point or complex one, and its \<^verbatim>\<open>.grad\<close> attribute. Objects live in a store and
  are named by their position in it, so that two names for one object are one address.
  The store holds the caller's tensors and the copies the call makes of them; the
  parameter tensors of the model, which lines 58, 59 and 81 move, clear and accumulate
  into, belong to the model and are not in the store.
\<close>

record tensor_obj =
  val :: tensor
  dev :: device
  requires_grad :: bool
  is_leaf :: bool
  is_floating :: bool
  grad :: "tensor option"

type_synonym addr = nat
type_synonym store = "tensor_obj list"

text \<open>
  \<^verbatim>\<open>input_.to(device)\<close>: the same object when it is on that device already, otherwise a
  new object with the same value and dtype on that device. The copy of a tensor that
  requires gradients is computed from it in the autograd graph, so it requires gradients
  and is not a leaf; the copy of any other tensor is a leaf.
\<close>

definition tensor_to :: "store \<Rightarrow> addr \<Rightarrow> device \<Rightarrow> addr \<times> store" where
  "tensor_to st a d =
     (if dev (st ! a) = d then (a, st)
      else (length st,
            st @ [\<lparr>val = val (st ! a), dev = d,
                   requires_grad = requires_grad (st ! a),
                   is_leaf = (\<not> requires_grad (st ! a)),
                   is_floating = is_floating (st ! a), grad = None\<rparr>]))"

text \<open>
  \<^verbatim>\<open>t.requires_grad = True\<close> (line 62). torch raises RuntimeError when \<open>t\<close> is not a
  leaf (the flag of a computed tensor cannot be changed) and when its dtype is not a
  floating-point or complex one (only such tensors can require gradients).
\<close>

definition set_requires_grad :: "store \<Rightarrow> addr \<Rightarrow> error + store" where
  "set_requires_grad st inp =
     (if is_leaf (st ! inp) \<and> is_floating (st ! inp)
      then Inr (st[inp := (st ! inp)\<lparr>requires_grad := True\<rparr>])
      else Inl RequiresGradError)"

text \<open>
  What the engine does to the leaf \<open>l\<close> at the end of a backward pass: it adds the
  gradient with respect to that leaf to its \<^verbatim>\<open>.grad\<close>.
\<close>

definition accumulate_grad :: "store \<Rightarrow> addr \<Rightarrow> tensor option \<Rightarrow> store" where
  "accumulate_grad st l g =
     (case g of
        None \<Rightarrow> st
      | Some t \<Rightarrow>
          st[l := (st ! l)\<lparr>grad :=
                  Some (case grad (st ! l) of None \<Rightarrow> t | Some old \<Rightarrow> tensor_add old t)\<rparr>])"

section \<open>The model, an external collaborator\<close>

text \<open>
  A submodule as \<^verbatim>\<open>named_modules()\<close> yields it: its layer type and, for a
  convolution, its \<^verbatim>\<open>in_channels\<close> (for a linear layer, its \<^verbatim>\<open>in_features\<close>).
  \<^verbatim>\<open>named_modules()\<close> yields every submodule object once.
\<close>

datatype module =
    Conv1d nat
  | Conv2d nat
  | Conv3d nat
  | Linear nat
  | OtherModule

text \<open>\<^verbatim>\<open>isinstance(module, Conv2d) and module.in_channels == 3\<close>\<close>

fun qualifies :: "module \<Rightarrow> bool" where
  "qualifies (Conv2d c) = (c = 3)"
| "qualifies _ = False"

text \<open>
  What a backward hook receives: the submodule it is attached to (its position in
  \<^verbatim>\<open>named_modules()\<close>) and the tuples \<^verbatim>\<open>grad_in\<close> and \<^verbatim>\<open>grad_out\<close>, whose entries
  may be \<^verbatim>\<open>None\<close>.
\<close>

record hook_event =
  ev_module :: nat
  grad_in :: "tensor option list"
  grad_out :: "tensor option list"

text \<open>
  The model in evaluation mode, with fixed weights. \<open>forward\<close> is
  \<^verbatim>\<open>model(input)\<close>, \<open>None\<close> when it raises. \<open>backward x seed\<close> is what the
  autograd engine does for \<^verbatim>\<open>output.backward(gradient=seed)\<close> after
  \<^verbatim>\<open>output = model(x)\<close>: \<open>None\<close> when the engine itself raises, otherwise the
  sequence of submodule boundaries the pass crosses, in order, each with its gradients,
  and the gradient with respect to \<open>x\<close> that the engine accumulates into the \<^verbatim>\<open>.grad\<close>
  of the leaf behind \<open>x\<close> ( \<open>None\<close> when the output does not depend on \<open>x\<close>).
\<close>

record model =
  named_modules :: "(string \<times> module) list"
  forward :: "tensor \<Rightarrow> tensor option"
  backward :: "tensor \<Rightarrow> tensor \<Rightarrow> (hook_event list \<times> tensor option) option"

section \<open>Backprop\<close>

text \<open>
  The fields of \<^verbatim>\<open>Backprop\<close> that \<^verbatim>\<open>calculate_gradient\<close> and the hook read or
  write. \<open>hooks\<close> holds the submodules (positions in \<^verbatim>\<open>named_modules()\<close>) on which
  \<^verbatim>\<open>register_backward_hook(_record_gradient)\<close> has been called.
\<close>

record backprop =
  bp_model :: model
  gradient :: "tensor option"
  hooks :: "nat list"
  device :: device

text \<open>The loop of \<^verbatim>\<open>_register_hooks\<close> over \<^verbatim>\<open>named_modules()\<close>, from position \<open>i\<close> on.\<close>

fun register_loop :: "nat \<Rightarrow> (string \<times> module) list \<Rightarrow> nat list \<Rightarrow> nat list" where
  "register_loop i [] hs = hs"
| "register_loop i ((name, m) # rest) hs =
     register_loop (Suc i) rest (if qualifies m then hs @ [i] else hs)"

definition register_hooks :: "backprop \<Rightarrow> backprop" where
  "register_hooks s = s\<lparr>hooks := register_loop 0 (named_modules (bp_model s)) (hooks s)\<rparr>"

text \<open>
  \<^verbatim>\<open>Backprop.__init__\<close>; \<open>cuda_available\<close> is \<^verbatim>\<open>torch.cuda.is_available()\<close>.
\<close>

definition init :: "model \<Rightarrow> bool \<Rightarrow> backprop" where
  "init m cuda_available =
     (register_hooks \<lparr>bp_model = m, gradient = None, hooks = [], device = Cpu\<rparr>)
       \<lparr>device := (if cuda_available then Cuda else Cpu)\<rparr>"

text \<open>
  The hook \<^verbatim>\<open>_record_gradient\<close>. Reading \<^verbatim>\<open>.shape\<close> of \<^verbatim>\<open>None\<close> and indexing an
  empty tuple raise.
\<close>

definition record_gradient :: "backprop \<Rightarrow> hook_event \<Rightarrow> error + backprop" where
  "record_gradient s ev =
     (case gradient s of
        None \<Rightarrow> Inl HookError
      | Some buf \<Rightarrow>
          (case grad_in ev of
             [] \<Rightarrow> Inl HookError
           | None # _ \<Rightarrow> Inl HookError
           | Some g # _ \<Rightarrow> Inr (if shape buf = shape g then s\<lparr>gradient := Some g\<rparr> else s)))"

text \<open>The events of a backward pass at which a registered hook is called.\<close>

definition fired :: "nat list \<Rightarrow> hook_event list \<Rightarrow> hook_event list" where
  "fired hs evs = filter (\<lambda>ev. ev_module ev \<in> set hs) evs"

text \<open>
  The hook calls of one backward pass, in order. A hook that raises ends the pass; the
  state is as the earlier hooks left it.
\<close>

fun run_hooks :: "backprop \<Rightarrow> hook_event list \<Rightarrow> error option \<times> backprop" where
  "run_hooks s [] = (None, s)"
| "run_hooks s (ev # evs) =
     (case record_gradient s ev of
        Inl e \<Rightarrow> (Some e, s)
      | Inr s' \<Rightarrow> run_hooks s' evs)"

text \<open>Python's index normalisation for a sequence of length \<open>n\<close>.\<close>

definition py_index :: "nat \<Rightarrow> int \<Rightarrow> nat option" where
  "py_index n i =
     (if 0 \<le> i \<and> i < int n then Some (nat i)
      else if - int n \<le> i \<and> i < 0 then Some (nat (i + int n))
      else None)"

text \<open>
  Lines 73 to 77: \<^verbatim>\<open>target = torch.FloatTensor(1, output.shape[-1]).zero_()\<close> and
  \<^verbatim>\<open>target[0][target_class] = 1\<close>. A 0-dimensional output has no \<^verbatim>\<open>shape[-1]\<close>.
\<close>

definition target_seed :: "tensor \<Rightarrow> int \<Rightarrow> error + tensor" where
  "target_seed output target_class =
     (if shape output = [] then Inl SeedError
      else
        let target = zeros [1, last (shape output)]
        in case py_index (last (shape output)) target_class of
             None \<Rightarrow> Inl SeedError
           | Some k \<Rightarrow> Inr (target\<lparr>data := (data target)[k := 1]\<rparr>))"

text \<open>\<^verbatim>\<open>t[0]\<close>: the first slice along dimension 0.\<close>

definition select0 :: "tensor \<Rightarrow> error + tensor" where
  "select0 t =
     (case shape t of
        [] \<Rightarrow> Inl BatchIndexError
      | d # ds \<Rightarrow>
          if d = 0 then Inl BatchIndexError
          else Inr \<lparr>shape = ds, data = take (prod_list ds) (data t)\<rparr>)"

text \<open>The \<open>c\<close> consecutive slices of length \<open>k\<close> of a row-major list.\<close>

fun chunks :: "nat \<Rightarrow> nat \<Rightarrow> real list \<Rightarrow> real list list" where
  "chunks 0 k xs = []"
| "chunks (Suc c) k xs = take k xs # chunks c k (drop k xs)"

text \<open>
  \<^verbatim>\<open>t.max(dim=0, keepdim=True)[0]\<close>: the element-wise maximum of the slices along
  dimension 0. A 0-dimensional tensor is its own maximum; a dimension of size 0 cannot
  be reduced.
\<close>

definition max_dim0 :: "tensor \<Rightarrow> error + tensor" where
  "max_dim0 t =
     (case shape t of
        [] \<Rightarrow> Inr t
      | d # ds \<Rightarrow>
          (case chunks d (prod_list ds) (data t) of
             [] \<Rightarrow> Inl ChannelMaxError
           | r # rs \<Rightarrow> Inr \<lparr>shape = 1 # ds, data = foldl (map2 max) r rs\<rparr>))"

text \<open>
  Lines 58 to 64 of \<^verbatim>\<open>calculate_gradient\<close>: the device moves, setting
  \<^verbatim>\<open>requires_grad\<close> on the object \<^verbatim>\<open>input_\<close> now names, and the reset of the buffer.
  Returns that object's address, or the exception of line 62, with the new state and
  store; when line 62 raises the buffer has not been reset. Moving the model and clearing
  its parameter gradients do not change what \<open>forward\<close> and \<open>backward\<close> compute.
\<close>

definition prepare :: "backprop \<Rightarrow> store \<Rightarrow> addr \<Rightarrow> (error + addr) \<times> backprop \<times> store" where
  "prepare s st a =
     (let (inp, st1) = tensor_to st a (device s)
      in case set_requires_grad st1 inp of
           Inl e \<Rightarrow> (Inl e, s, st1)
         | Inr st2 \<Rightarrow>
             (Inr inp, s\<lparr>gradient := Some (zeros (shape (val (st2 ! inp))))\<rparr>, st2))"

text \<open>
  Line 62 does not raise on the caller's tensor at \<open>a\<close>: it is of a floating-point
  dtype and the object \<^verbatim>\<open>input_.to(device)\<close> returns is a leaf, that is, the tensor
  itself is a leaf when it is on the extractor's device, and it does not require
  gradients when a copy is made.
\<close>

definition accepts_requires_grad :: "backprop \<Rightarrow> store \<Rightarrow> addr \<Rightarrow> bool" where
  "accepts_requires_grad s st a =
     (is_floating (st ! a)
      \<and> (if dev (st ! a) = device s then is_leaf (st ! a) else \<not> requires_grad (st ! a)))"

text \<open>Lines 85 to 92: batch selection and the optional maximum over channels.\<close>

definition select_gradient :: "tensor \<Rightarrow> bool \<Rightarrow> error + tensor" where
  "select_gradient buf take_max =
     (case select0 buf of
        Inl e \<Rightarrow> Inl e
      | Inr g \<Rightarrow> if take_max then max_dim0 g else Inr g)"

text \<open>
  Lines 81 to 92, given what the engine does for
  \<^verbatim>\<open>output.backward(gradient=target)\<close>: the registered hooks run inside the pass
  (an exception of a hook leaves through \<^verbatim>\<open>backward\<close>), the engine then accumulates
  the gradient of the input in \<^verbatim>\<open>input_\<close>, a leaf since line 62 did not raise, and the
  buffer is read.
\<close>

definition backward_and_select ::
  "backprop \<Rightarrow> store \<Rightarrow> addr \<Rightarrow> bool \<Rightarrow> (hook_event list \<times> tensor option) option
   \<Rightarrow> (error + tensor) \<times> backprop \<times> store" where
  "backward_and_select s1 st2 leaf take_max bw =
     (case bw of
        None \<Rightarrow> (Inl BackwardError, s1, st2)
      | Some (evs, input_grad) \<Rightarrow>
          (case run_hooks s1 (fired (hooks s1) evs) of
             (Some e, s2) \<Rightarrow> (Inl e, s2, st2)
           | (None, s2) \<Rightarrow>
               (let st3 = accumulate_grad st2 leaf input_grad
                in case gradient s2 of
                     None \<Rightarrow> (Inl BatchIndexError, s2, st3)
                   | Some buf \<Rightarrow> (select_gradient buf take_max, s2, st3))))"

text \<open>
  \<^verbatim>\<open>Backprop.calculate_gradient\<close>, on the caller's tensor at address \<open>a\<close>. Returns
  the gradient or the exception, with the extractor and the store as the call leaves
  them.
\<close>

definition calculate_gradient ::
  "backprop \<Rightarrow> store \<Rightarrow> addr \<Rightarrow> int \<Rightarrow> bool \<Rightarrow> (error + tensor) \<times> backprop \<times> store" where
  "calculate_gradient s st a target_class take_max =
     (if length st \<le> a then (Inl NoSuchTensor, s, st)
      else
        case prepare s st a of
          (Inl e, s0, st1) \<Rightarrow> (Inl e, s0, st1)
        | (Inr inp, s1, st2) \<Rightarrow>
            (let x = val (st2 ! inp)
             in case forward (bp_model s1) x of
                  None \<Rightarrow> (Inl ForwardError, s1, st2)
                | Some output \<Rightarrow>
                    (case target_seed output target_class of
                       Inl e \<Rightarrow> (Inl e, s1, st2)
                     | Inr target \<Rightarrow>
                         backward_and_select s1 st2 inp take_max
                           (backward (bp_model s1) x target))))"

text \<open>
  The states an extractor constructed on \<open>m\<close> can be in: the model and the registered
  hooks are those of construction; the buffer and the device are free.
\<close>

definition constructed_on :: "model \<Rightarrow> backprop \<Rightarrow> bool" where
  "constructed_on m s = (bp_model s = m \<and> hooks s = hooks (init m False))"

text \<open>
  The value component of \<open>backward_and_select\<close> for a pass with hook calls \<open>evs\<close>,
  used in the proofs below.
\<close>

definition hook_result :: "backprop \<Rightarrow> hook_event list \<Rightarrow> bool \<Rightarrow> error + tensor" where
  "hook_result s1 evs take_max =
     (case run_hooks s1 evs of
        (Some e, s2) \<Rightarrow> Inl e
      | (None, s2) \<Rightarrow>
          (case gradient s2 of
             None \<Rightarrow> Inl BatchIndexError
           | Some buf \<Rightarrow> select_gradient buf take_max))"

section \<open>Two small models\<close>

text \<open>
  A toy classifier on inputs of shape (1, 3, 1, 2): a 1x1 convolution from 3 channels to
  1 with weights 1, 2, 3 and no bias, then a flatten and an identity linear layer, so
  that the score of class \<open>w\<close> is \<open>x[0,w] + 2 x[1,w] + 3 x[2,w]\<close>. Its backward pass
  crosses the linear layer, then the convolution, where the gradient entering the
  convolution's input is \<open>weight[c] * seed[w]\<close>.
\<close>

definition toy_input_grad :: "tensor \<Rightarrow> tensor" where
  "toy_input_grad seed =
     (case data seed of
        [s0, s1] \<Rightarrow> \<lparr>shape = [1, 3, 1, 2], data = [s0, s1, 2 * s0, 2 * s1, 3 * s0, 3 * s1]\<rparr>
      | _ \<Rightarrow> zeros [1, 3, 1, 2])"

definition toy_events :: "tensor \<Rightarrow> hook_event list" where
  "toy_events seed =
     [\<lparr>ev_module = 2, grad_in = [Some seed], grad_out = [Some seed]\<rparr>,
      \<lparr>ev_module = 1, grad_in = [Some (toy_input_grad seed)],
       grad_out = [Some (seed\<lparr>shape := [1, 1, 1, 2]\<rparr>)]\<rparr>]"

definition toy_model :: model where
  "toy_model =
     \<lparr>named_modules = [('''', OtherModule), (''conv'', Conv2d 3), (''fc'', Linear 2)],
      forward = (\<lambda>x.
        if shape x = [1, 3, 1, 2] then
          (case data x of
             [a0, a1, b0, b1, c0, c1] \<Rightarrow>
               Some \<lparr>shape = [1, 2], data = [a0 + 2 * b0 + 3 * c0, a1 + 2 * b1 + 3 * c1]\<rparr>
           | _ \<Rightarrow> None)
        else None),
      backward = (\<lambda>x seed.
        if shape seed = [1, 2] \<and> length (data seed) = 2
        then Some (toy_events seed, Some (toy_input_grad seed))
        else None)\<rparr>"

definition toy_input :: tensor where
  "toy_input = \<lparr>shape = [1, 3, 1, 2], data = [1, 2, 3, 4, 5, 6]\<rparr>"

definition toy_store :: store where
  "toy_store =
     [\<lparr>val = toy_input, dev = Cpu, requires_grad = False, is_leaf = True,
       is_floating = True, grad = None\<rparr>]"

text \<open>The same image as a tensor of an integer dtype.\<close>

definition int_store :: store where
  "int_store =
     [\<lparr>val = toy_input, dev = Cpu, requires_grad = False, is_leaf = True,
       is_floating = False, grad = None\<rparr>]"

text \<open>
  A classifier that declares a 2D convolution with 3 input channels and does not apply
  it in its forward pass (an auxiliary layer): on inputs of shape (1, 3, 1, 2) the
  score of class \<open>w\<close> is \<open>x[0,w] + x[1,w] + x[2,w]\<close>, computed by the linear layer on the
  flattened image. Its backward pass crosses the linear layer only.
\<close>

definition aux_input_grad :: "tensor \<Rightarrow> tensor" where
  "aux_input_grad seed =
     (case data seed of
        [s0, s1] \<Rightarrow> \<lparr>shape = [1, 3, 1, 2], data = [s0, s1, s0, s1, s0, s1]\<rparr>
      | _ \<Rightarrow> zeros [1, 3, 1, 2])"

definition aux_model :: model where
  "aux_model =
     \<lparr>named_modules = [('''', OtherModule), (''aux'', Conv2d 3), (''fc'', Linear 6)],
      forward = (\<lambda>x.
        if shape x = [1, 3, 1, 2] then
          (case data x of
             [a0, a1, b0, b1, c0, c1] \<Rightarrow>
               Some \<lparr>shape = [1, 2], data = [a0 + b0 + c0, a1 + b1 + c1]\<rparr>
           | _ \<Rightarrow> None)
        else None),
      backward = (\<lambda>x seed.
        if shape seed = [1, 2] \<and> length (data seed) = 2
        then Some ([\<lparr>ev_module = 2, grad_in = [Some seed], grad_out = [Some seed]\<rparr>],
                   Some (aux_input_grad seed))
        else None)\<rparr>"

text \<open>
  The same network with a single-channel input of shape (1, 1, 1, 2): its convolution has
  1 input channel, so no submodule qualifies.
\<close>

definition grey_model :: model where
  "grey_model =
     \<lparr>named_modules = [('''', OtherModule), (''conv'', Conv2d 1), (''fc'', Linear 2)],
      forward = (\<lambda>x.
        if shape x = [1, 1, 1, 2] \<and> length (data x) = 2
        then Some \<lparr>shape = [1, 2], data = data x\<rparr> else None),
      backward = (\<lambda>x seed.
        if shape seed = [1, 2] \<and> length (data seed) = 2 then
          Some ([\<lparr>ev_module = 2, grad_in = [Some seed], grad_out = [Some seed]\<rparr>,
                 \<lparr>ev_module = 1, grad_in = [Some (seed\<lparr>shape := [1, 1, 1, 2]\<rparr>)],
                  grad_out = [Some (seed\<lparr>shape := [1, 1, 1, 2]\<rparr>)]\<rparr>],
                Some (seed\<lparr>shape := [1, 1, 1, 2]\<rparr>))
        else None)\<rparr>"

definition grey_store :: store where
  "grey_store =
     [\<lparr>val = \<lparr>shape = [1, 1, 1, 2], data = [5, 7]\<rparr>, dev = Cpu,
       requires_grad = False, is_leaf = True, is_floating = True, grad = None\<rparr>]"

section \<open>Evaluation on the small models\<close>

lemmas eval_defs =
  calculate_gradient_def prepare_def tensor_to_def backward_and_select_def
  init_def register_hooks_def fired_def record_gradient_def target_seed_def py_index_def
  zeros_def select_gradient_def select0_def max_dim0_def set_requires_grad_def accumulate_grad_def
  tensor_add_def constructed_on_def wf_tensor_def accepts_requires_grad_def
  toy_model_def toy_input_def toy_store_def toy_input_grad_def toy_events_def grey_model_def grey_store_def
  int_store_def aux_model_def aux_input_grad_def
  Let_def numeral_2_eq_2 numeral_3_eq_3

section \<open>Hook registration\<close>

lemma register_loop_filter:
  "register_loop i ms hs =
     hs @ map (\<lambda>j. i + j) (filter (\<lambda>j. qualifies (snd (ms ! j))) [0..<length ms])"
proof (induction i ms hs rule: register_loop.induct)
  case (1 i hs)
  show ?case by simp
next
  case (2 i name m rest hs)
  have split: "[0..<length ((name, m) # rest)] = 0 # map Suc [0..<length rest]"
    by (simp add: upt_conv_Cons map_Suc_upt del: upt_Suc)
  show ?case
    unfolding split using 2
    by (simp add: filter_map comp_def del: upt_Suc)
qed

lemma hooks_init:
  "hooks (init m cuda) =
     filter (\<lambda>j. qualifies (snd (named_modules m ! j))) [0..<length (named_modules m)]"
  by (simp add: init_def register_hooks_def register_loop_filter)

lemma count_qualifying:
  "length (filter (\<lambda>j. qualifies (snd (xs ! j))) [0..<length xs])
     = length (filter (\<lambda>nm. qualifies (snd nm)) xs)"
proof -
  have "map (\<lambda>j. xs ! j) (filter (\<lambda>j. qualifies (snd (xs ! j))) [0..<length xs])
        = filter (\<lambda>nm. qualifies (snd nm)) (map (\<lambda>j. xs ! j) [0..<length xs])"
    by (simp add: filter_map comp_def)
  then show ?thesis
    by (metis length_map map_nth)
qed

lemma no_qualifying_no_hooks:
  assumes "constructed_on m s" "\<forall>nm \<in> set (named_modules m). \<not> qualifies (snd nm)"
  shows "hooks s = []"
  using assms by (auto simp: constructed_on_def hooks_init filter_empty_conv)

lemma constructed_on_init: "constructed_on m (init m cuda)"
  by (simp add: constructed_on_def init_def register_hooks_def)

text \<open>
  C2. Construction registers the hook on every submodule of the traversal that is a 2D
  convolution with exactly 3 input channels, not only on the first: the registered
  positions are all the qualifying positions of \<^verbatim>\<open>named_modules()\<close>, in traversal
  order, so a model with several qualifying convolutions gets one hook per match.
\<close>

theorem init_hooks_every_match:
  "hooks (init m cuda) =
     filter (\<lambda>j. qualifies (snd (named_modules m ! j))) [0..<length (named_modules m)]
   \<and> length (hooks (init m cuda)) = length (filter (\<lambda>nm. qualifies (snd nm)) (named_modules m))"
  by (simp add: hooks_init count_qualifying)

section \<open>The start of a call\<close>

lemma prepare_accepted:
  assumes "a < length st" and "accepts_requires_grad s st a"
  shows "\<exists>inp st2. prepare s st a
           = (Inr inp, s\<lparr>gradient := Some (zeros (shape (val (st ! a))))\<rparr>, st2)
      \<and> inp = fst (tensor_to st a (device s))
      \<and> st2 = (snd (tensor_to st a (device s)))
                [inp := (snd (tensor_to st a (device s)) ! inp)\<lparr>requires_grad := True\<rparr>]
      \<and> inp < length st2 \<and> val (st2 ! inp) = val (st ! a) \<and> length st \<le> length st2
      \<and> (dev (st ! a) = device s \<longrightarrow> inp = a \<and> st2 = st[a := (st ! a)\<lparr>requires_grad := True\<rparr>])
      \<and> (dev (st ! a) \<noteq> device s \<longrightarrow> inp = length st)"
  using assms
  by (auto simp: prepare_def tensor_to_def set_requires_grad_def accepts_requires_grad_def
                 Let_def nth_append)

lemma prepare_refused:
  assumes "a < length st" and "\<not> accepts_requires_grad s st a"
  shows "prepare s st a = (Inl RequiresGradError, s, snd (tensor_to st a (device s)))"
  using assms
  by (auto simp: prepare_def tensor_to_def set_requires_grad_def accepts_requires_grad_def
                 Let_def nth_append split: if_splits)

text \<open>
  C1, as the code has it. In a call on which line 62 does not raise, the buffer is reset
  at line 64 to the zero tensor whose shape is that of the input image
  (\<^verbatim>\<open>torch.zeros(input_.shape)\<close>), not that of the output score vector; when the
  forward pass then raises, the call leaves exactly this buffer behind. When line 62
  raises, the call ends there and the buffer is as it was.
\<close>

theorem buffer_reset_to_input_shape:
  assumes "a < length st"
  shows "(accepts_requires_grad s st a \<longrightarrow>
            (\<exists>inp. fst (prepare s st a) = Inr inp)
          \<and> gradient (fst (snd (prepare s st a))) = Some (zeros (shape (val (st ! a))))
          \<and> (forward (bp_model s) (val (st ! a)) = None \<longrightarrow>
               calculate_gradient s st a target_class take_max
                 = (Inl ForwardError, fst (snd (prepare s st a)), snd (snd (prepare s st a)))
             \<and> gradient (fst (snd (calculate_gradient s st a target_class take_max)))
                 = Some (zeros (shape (val (st ! a))))))
       \<and> (\<not> accepts_requires_grad s st a \<longrightarrow>
            fst (calculate_gradient s st a target_class take_max) = Inl RequiresGradError
          \<and> fst (snd (calculate_gradient s st a target_class take_max)) = s)"
proof (intro conjI impI)
  assume acc: "accepts_requires_grad s st a"
  from prepare_accepted[OF assms acc] obtain inp st2 where
    p: "prepare s st a = (Inr inp, s\<lparr>gradient := Some (zeros (shape (val (st ! a))))\<rparr>, st2)"
       "val (st2 ! inp) = val (st ! a)" by blast
  from p show "\<exists>inp. fst (prepare s st a) = Inr inp" by simp
  from p show g: "gradient (fst (snd (prepare s st a))) = Some (zeros (shape (val (st ! a))))"
    by simp
  assume "forward (bp_model s) (val (st ! a)) = None"
  with assms p show c: "calculate_gradient s st a target_class take_max
                 = (Inl ForwardError, fst (snd (prepare s st a)), snd (snd (prepare s st a)))"
    by (simp add: calculate_gradient_def)
  from c g show "gradient (fst (snd (calculate_gradient s st a target_class take_max)))
                 = Some (zeros (shape (val (st ! a))))" by simp
next
  assume "\<not> accepts_requires_grad s st a"
  from prepare_refused[OF assms this] assms
  show "fst (calculate_gradient s st a target_class take_max) = Inl RequiresGradError"
    and "fst (snd (calculate_gradient s st a target_class take_max)) = s"
    by (simp_all add: calculate_gradient_def)
qed

text \<open>
  The toy model rejects the single-channel image, so the call stops at the forward pass
  with the buffer just reset: zeros of shape (1, 1, 1, 2). On the integer image line 62
  raises.
\<close>

theorem buffer_reset_to_input_shape_witness:
  "(0::nat) < length grey_store
   \<and> accepts_requires_grad (init toy_model False) grey_store 0
   \<and> forward (bp_model (init toy_model False)) (val (grey_store ! 0)) = None
   \<and> gradient (fst (snd (calculate_gradient (init toy_model False) grey_store 0 0 False)))
       = Some \<lparr>shape = [1, 1, 1, 2], data = [0, 0]\<rparr>
   \<and> \<not> accepts_requires_grad (init toy_model False) int_store 0
   \<and> fst (calculate_gradient (init toy_model False) int_store 0 0 False)
       = Inl RequiresGradError"
proof -
  have h1: "(0::nat) < length grey_store" by (simp add: grey_store_def)
  have h2: "accepts_requires_grad (init toy_model False) grey_store 0"
    by (simp add: eval_defs)
  have h3: "forward (bp_model (init toy_model False)) (val (grey_store ! 0)) = None"
    by (simp add: eval_defs)
  have z: "zeros (shape (val (grey_store ! 0))) = \<lparr>shape = [1, 1, 1, 2], data = [0, 0]\<rparr>"
    by (simp add: eval_defs)
  have k1: "(0::nat) < length int_store" by (simp add: int_store_def)
  have k2: "\<not> accepts_requires_grad (init toy_model False) int_store 0"
    by (simp add: eval_defs)
  from buffer_reset_to_input_shape[OF h1, of "init toy_model False" 0 False]
       buffer_reset_to_input_shape[OF k1, of "init toy_model False" 0 False]
       h1 h2 h3 z k2
  show ?thesis by simp
qed

text \<open>
  Against C1 as stated: on the toy model the score vector has shape (1, 2), and the buffer
  after the reset is the zero tensor of shape (1, 3, 1, 2), the shape of the image.
\<close>

theorem buffer_not_output_shaped:
  "forward (bp_model (init toy_model False)) (val (toy_store ! 0))
     = Some \<lparr>shape = [1, 2], data = [22, 28]\<rparr>
   \<and> fst (prepare (init toy_model False) toy_store 0) = Inr 0
   \<and> gradient (fst (snd (prepare (init toy_model False) toy_store 0)))
     = Some \<lparr>shape = [1, 3, 1, 2], data = [0, 0, 0, 0, 0, 0]\<rparr>
   \<and> gradient (fst (snd (prepare (init toy_model False) toy_store 0))) \<noteq> Some (zeros [1, 2])"
  by (simp add: eval_defs)

section \<open>The hooks of one backward pass\<close>

lemma record_gradient_frame:
  "record_gradient s ev = Inr s' \<Longrightarrow> gradient s = Some b \<Longrightarrow>
     bp_model s' = bp_model s \<and> hooks s' = hooks s \<and> device s' = device s
     \<and> (\<exists>b'. gradient s' = Some b' \<and> shape b' = shape b)"
  by (auto simp: record_gradient_def split: option.splits list.splits if_splits)

lemma run_hooks_frame:
  "run_hooks s evs = (r, s') \<Longrightarrow> gradient s = Some b \<Longrightarrow>
     bp_model s' = bp_model s \<and> hooks s' = hooks s \<and> device s' = device s
     \<and> (\<exists>b'. gradient s' = Some b' \<and> shape b' = shape b)"
proof (induction evs arbitrary: s b)
  case Nil
  then show ?case by simp
next
  case (Cons ev evs)
  show ?case
  proof (cases "record_gradient s ev")
    case (Inl e)
    with Cons.prems show ?thesis by simp
  next
    case (Inr s1)
    from record_gradient_frame[OF Inr Cons.prems(2)] obtain b1 where
      f: "bp_model s1 = bp_model s" "hooks s1 = hooks s" "device s1 = device s"
         "gradient s1 = Some b1" "shape b1 = shape b" by blast
    from Cons.prems(1) Inr have "run_hooks s1 evs = (r, s')" by simp
    from Cons.IH[OF this f(4)] f show ?thesis by simp
  qed
qed

lemma record_gradient_cong:
  "gradient s = gradient t \<Longrightarrow>
     (\<forall>e. record_gradient s ev = Inl e \<longleftrightarrow> record_gradient t ev = Inl e)
   \<and> (\<forall>s' t'. record_gradient s ev = Inr s' \<longrightarrow> record_gradient t ev = Inr t'
         \<longrightarrow> gradient s' = gradient t')"
  by (auto simp: record_gradient_def split: option.splits list.splits if_splits)

lemma run_hooks_cong:
  "gradient s = gradient t \<Longrightarrow>
     fst (run_hooks s evs) = fst (run_hooks t evs)
     \<and> gradient (snd (run_hooks s evs)) = gradient (snd (run_hooks t evs))"
proof (induction evs arbitrary: s t)
  case Nil
  then show ?case by simp
next
  case (Cons ev evs)
  show ?case
  proof (cases "record_gradient s ev")
    case (Inl e)
    with record_gradient_cong[OF Cons.prems, of ev] have "record_gradient t ev = Inl e" by blast
    with Inl Cons.prems show ?thesis by simp
  next
    case (Inr s1)
    with record_gradient_cong[OF Cons.prems, of ev] obtain t1 where
      t1: "record_gradient t ev = Inr t1"
      by (cases "record_gradient t ev") auto
    with Inr record_gradient_cong[OF Cons.prems, of ev] have "gradient s1 = gradient t1" by blast
    from Cons.IH[OF this] Inr t1 show ?thesis by simp
  qed
qed

lemma run_hooks_error: "run_hooks s evs = (Some e, s') \<Longrightarrow> e = HookError"
proof (induction evs arbitrary: s)
  case Nil
  then show ?case by simp
next
  case (Cons ev evs)
  then show ?case
    by (cases "record_gradient s ev")
       (auto simp: record_gradient_def split: option.splits list.splits)
qed

lemma hook_result_cong:
  "gradient s = gradient t \<Longrightarrow> hook_result s evs tm = hook_result t evs tm"
  using run_hooks_cong[of s t evs]
  by (auto simp: hook_result_def split: prod.splits option.splits)

lemma hook_result_not_seed: "hook_result s evs tm \<noteq> Inl SeedError"
proof (cases "run_hooks s evs")
  case (Pair r s')
  show ?thesis
  proof (cases r)
    case None
    with Pair show ?thesis
      by (auto simp: hook_result_def select_gradient_def select0_def max_dim0_def
               split: option.splits list.splits sum.splits if_splits)
  next
    case (Some e)
    with Pair run_hooks_error[of s evs e s'] show ?thesis
      by (simp add: hook_result_def)
  qed
qed

lemma hook_result_shape:
  assumes "gradient s1 = Some b" "hook_result s1 evs False = Inr r"
  shows "shape r = tl (shape b)"
proof -
  obtain e s2 where rh: "run_hooks s1 evs = (e, s2)" by (cases "run_hooks s1 evs")
  from run_hooks_frame[OF rh assms(1)] obtain b' where
    b': "gradient s2 = Some b'" "shape b' = shape b" by blast
  with rh assms(2) show ?thesis
    by (auto simp: hook_result_def select_gradient_def select0_def
             split: option.splits list.splits if_splits)
qed

section \<open>The value a call returns\<close>

lemma calc_fst:
  assumes "a < length st"
  shows "fst (calculate_gradient s st a tc tm) =
     (if \<not> accepts_requires_grad s st a then Inl RequiresGradError
      else
        case forward (bp_model s) (val (st ! a)) of
          None \<Rightarrow> Inl ForwardError
        | Some out \<Rightarrow>
            (case target_seed out tc of
               Inl e \<Rightarrow> Inl e
             | Inr t \<Rightarrow>
                 (case backward (bp_model s) (val (st ! a)) t of
                    None \<Rightarrow> Inl BackwardError
                  | Some (evs, ig) \<Rightarrow>
                      hook_result (s\<lparr>gradient := Some (zeros (shape (val (st ! a))))\<rparr>)
                         (fired (hooks s) evs) tm)))"
proof (cases "accepts_requires_grad s st a")
  case False
  from prepare_refused[OF assms False] assms False show ?thesis
    by (simp add: calculate_gradient_def)
next
  case True
  from prepare_accepted[OF assms True] obtain inp st2 where
    p: "prepare s st a = (Inr inp, s\<lparr>gradient := Some (zeros (shape (val (st ! a))))\<rparr>, st2)"
       "val (st2 ! inp) = val (st ! a)" by blast
  show ?thesis
    using assms p True
    by (simp add: calculate_gradient_def backward_and_select_def hook_result_def Let_def
             split: option.splits sum.splits prod.splits)
qed

lemma calc_valid_addr: "fst (calculate_gradient s st a tc tm) = Inr g \<Longrightarrow> a < length st"
  by (cases "a < length st") (simp_all add: calculate_gradient_def)

lemma result_depends:
  assumes "a < length st" "a' < length st'" "bp_model s = bp_model s'" "hooks s = hooks s'"
    "val (st ! a) = val (st' ! a')"
    "accepts_requires_grad s st a = accepts_requires_grad s' st' a'"
  shows "fst (calculate_gradient s st a tc tm) = fst (calculate_gradient s' st' a' tc tm)"
proof -
  have "hook_result (s\<lparr>gradient := Some z\<rparr>) evs tm = hook_result (s'\<lparr>gradient := Some z\<rparr>) evs tm"
    for z evs
    by (rule hook_result_cong) simp
  then show ?thesis
    unfolding calc_fst[OF assms(1)] calc_fst[OF assms(2)] using assms(3-6)
    by (simp split: option.splits sum.splits prod.splits)
qed

lemma result_shape_False:
  assumes "fst (calculate_gradient s st a tc False) = Inr r"
  shows "shape r = tl (shape (val (st ! a)))"
proof -
  have a: "a < length st" using assms by (rule calc_valid_addr)
  from assms show ?thesis
    unfolding calc_fst[OF a]
    by (auto split: option.splits sum.splits prod.splits if_splits
             dest!: hook_result_shape[rotated] simp: zeros_def)
qed

lemma take_max_of_result:
  assumes "fst (calculate_gradient s st a tc False) = Inr g"
  shows "fst (calculate_gradient s st a tc True) = max_dim0 g"
proof -
  have a: "a < length st" using assms by (rule calc_valid_addr)
  show ?thesis
    using assms unfolding calc_fst[OF a]
    by (auto simp: hook_result_def select_gradient_def
             split: option.splits sum.splits prod.splits if_splits)
qed


section \<open>The maximum over channels\<close>

lemma length_chunks: "length (chunks d k xs) = d"
  by (induction d arbitrary: xs) auto

lemma chunks_nth: "c < d \<Longrightarrow> chunks d k xs ! c = take k (drop (c * k) xs)"
proof (induction d arbitrary: xs c)
  case 0
  then show ?case by simp
next
  case (Suc d)
  show ?case
  proof (cases c)
    case 0
    then show ?thesis by simp
  next
    case (Suc c')
    with Suc.prems have "c' < d" by simp
    from Suc.IH[OF this, of "drop k xs"] Suc show ?thesis
      by (simp add: add.commute)
  qed
qed

lemma chunk_length:
  assumes "length xs = d * k" "c < d"
  shows "length (chunks d k xs ! c) = k"
proof -
  from assms(2) have "Suc c \<le> d" by simp
  then have "Suc c * k \<le> d * k" by (rule mult_le_mono1)
  then have "k \<le> d * k - c * k" by simp
  with assms show ?thesis by (simp add: chunks_nth)
qed

lemma chunk_elem:
  assumes "length xs = d * k" "c < d" "p < k"
  shows "chunks d k xs ! c ! p = xs ! (c * k + p)"
  using assms by (simp add: chunks_nth)

lemma foldl_map2_max:
  assumes "length r = k" "\<forall>row \<in> set rs. length row = k"
  shows "length (foldl (map2 max) r rs) = k
     \<and> (\<forall>p<k. foldl (map2 max) r rs ! p = Max ((\<lambda>row. row ! p) ` set (r # rs)))"
  using assms
proof (induction rs arbitrary: r)
  case Nil
  then show ?case by simp
next
  case (Cons row rs)
  let ?r' = "map2 max r row"
  from Cons.prems have len: "length ?r' = k" by simp
  from Cons.prems have rest: "\<forall>x \<in> set rs. length x = k" by simp
  note ih = Cons.IH[OF len rest]
  show ?case
  proof (intro conjI allI impI)
    show "length (foldl (map2 max) r (row # rs)) = k" using ih by simp
  next
    fix p assume p: "p < k"
    with Cons.prems have rp: "?r' ! p = max (r ! p) (row ! p)" by simp
    have "foldl (map2 max) r (row # rs) ! p = Max ((\<lambda>x. x ! p) ` set (?r' # rs))"
      using ih p by simp
    also have "\<dots> = Max (insert (max (r ! p) (row ! p)) ((\<lambda>x. x ! p) ` set rs))"
      using rp by simp
    also have "\<dots> = Max ((\<lambda>x. x ! p) ` set (r # row # rs))"
    proof (cases "rs = []")
      case True
      then show ?thesis by (simp add: max.commute)
    next
      case False
      then have ne: "(\<lambda>x. x ! p) ` set rs \<noteq> {}" by simp
      have fin: "finite ((\<lambda>x. x ! p) ` set rs)" by simp
      show ?thesis
        using Max_insert[OF fin ne] by (simp add: max.assoc)
    qed
    finally show "foldl (map2 max) r (row # rs) ! p = Max ((\<lambda>x. x ! p) ` set (r # row # rs))" .
  qed
qed

lemma max_dim0_spec:
  assumes wf: "wf_tensor g" and sh: "shape g = d # ds" and d: "0 < d"
  shows "\<exists>gm. max_dim0 g = Inr gm \<and> shape gm = 1 # ds \<and> length (data gm) = prod_list ds
     \<and> (\<forall>p < prod_list ds. data gm ! p = Max ((\<lambda>c. data g ! (c * prod_list ds + p)) ` {..<d}))"
proof -
  let ?k = "prod_list ds"
  let ?rows = "chunks d ?k (data g)"
  from wf sh have len: "length (data g) = d * ?k" by (simp add: wf_tensor_def)
  from d obtain r rs where rows: "?rows = r # rs"
    by (cases ?rows) (use length_chunks[of d ?k "data g"] in auto)
  have all_len: "\<forall>row \<in> set ?rows. length row = ?k"
    using chunk_length[OF len] by (auto simp: in_set_conv_nth length_chunks)
  with rows have lr: "length r = ?k" and lrs: "\<forall>row \<in> set rs. length row = ?k" by auto
  note fm = foldl_map2_max[OF lr lrs]
  have set_rows: "set ?rows = (\<lambda>c. ?rows ! c) ` {..<d}"
    by (auto simp: set_conv_nth length_chunks)
  have elem: "(\<lambda>row. row ! p) ` set (r # rs) = (\<lambda>c. data g ! (c * ?k + p)) ` {..<d}"
    if "p < ?k" for p
  proof -
    have "(\<lambda>row. row ! p) ` set ?rows = (\<lambda>c. ?rows ! c ! p) ` {..<d}"
      unfolding set_rows by (simp add: image_image)
    also have "\<dots> = (\<lambda>c. data g ! (c * ?k + p)) ` {..<d}"
      using chunk_elem[OF len _ that] by (intro image_cong) auto
    finally show ?thesis using rows by simp
  qed
  from sh rows have "max_dim0 g = Inr \<lparr>shape = 1 # ds, data = foldl (map2 max) r rs\<rparr>"
    by (simp add: max_dim0_def)
  with fm elem show ?thesis by simp
qed


text \<open>
  C3. Whenever the call with \<^verbatim>\<open>take_max=False\<close> returns a gradient \<open>g\<close> with \<open>c > 0\<close>
  channels and spatial shape \<open>sp\<close>, the call with \<^verbatim>\<open>take_max=True\<close> on the same input
  and target class returns a tensor with exactly one channel, of shape \<open>1 # sp\<close>, whose
  value at every spatial position (row-major offset \<open>p\<close>) is the maximum over the
  channels \<open>ch\<close> of the value of \<open>g\<close> at channel \<open>ch\<close> and that position.
\<close>

theorem take_max_is_channel_maximum:
  assumes "fst (calculate_gradient s st a target_class False) = Inr g"
    and "wf_tensor g" and "shape g = c # sp" and "0 < c"
  shows "\<exists>gm. fst (calculate_gradient s st a target_class True) = Inr gm
     \<and> shape gm = 1 # sp
     \<and> length (data gm) = prod_list sp
     \<and> (\<forall>p < prod_list sp.
           data gm ! p = Max ((\<lambda>ch. data g ! (ch * prod_list sp + p)) ` {..<c}))"
  using max_dim0_spec[OF assms(2,3,4)] take_max_of_result[OF assms(1)] by auto

text \<open>
  On the toy model and class 0 the per-channel gradient is 1, 2, 3 at the first pixel and
  0 at the second; the maximum over channels is 3 and 0.
\<close>

theorem take_max_is_channel_maximum_witness:
  "fst (calculate_gradient (init toy_model False) toy_store 0 0 False)
     = Inr \<lparr>shape = [3, 1, 2], data = [1, 0, 2, 0, 3, 0]\<rparr>
   \<and> wf_tensor \<lparr>shape = [3, 1, 2], data = [1, 0, 2, 0, 3, 0]\<rparr>
   \<and> (0::nat) < 3
   \<and> fst (calculate_gradient (init toy_model False) toy_store 0 0 True)
     = Inr \<lparr>shape = [1, 1, 2], data = [3, 0]\<rparr>"
proof -
  let ?g = "\<lparr>shape = [3, 1, 2], data = [1, 0, 2, 0, 3, 0]\<rparr> :: tensor"
  have h1: "fst (calculate_gradient (init toy_model False) toy_store 0 0 False) = Inr ?g"
    by (simp add: eval_defs)
  have h2: "wf_tensor ?g" by (simp add: wf_tensor_def)
  have h3: "shape ?g = 3 # [1, 2]" by simp
  have h4: "(0::nat) < 3" by simp
  have v: "fst (calculate_gradient (init toy_model False) toy_store 0 0 True)
     = Inr \<lparr>shape = [1, 1, 2], data = [3, 0]\<rparr>"
    by (simp add: eval_defs)
  from take_max_is_channel_maximum[OF h1 h2 h3 h4] h1 h2 h4 v show ?thesis by simp
qed

section \<open>A model without a qualifying layer\<close>

lemma select0_zeros: "0 < n \<Longrightarrow> select0 (zeros (n # ds)) = Inr (zeros ds)"
proof -
  assume "0 < n"
  then have "prod_list ds \<le> n * prod_list ds" by simp
  then have "min (prod_list ds) (n * prod_list ds) = prod_list ds" by simp
  with \<open>0 < n\<close> show ?thesis by (simp add: select0_def zeros_def)
qed

lemma chunks_replicate: "chunks c k (replicate (c * k) x) = replicate c (replicate k x)"
proof (induction c)
  case 0
  show ?case by simp
next
  case (Suc c)
  have "min k (k + c * k) = k" by simp
  with Suc show ?case by simp
qed

lemma foldl_max_zero_rows:
  "foldl (map2 max) (replicate k (0::real)) (replicate j (replicate k 0)) = replicate k 0"
  by (induction j) (simp_all add: zip_replicate)

lemma max_dim0_zeros: "0 < c \<Longrightarrow> max_dim0 (zeros (c # sp)) = Inr (zeros (1 # sp))"
proof -
  assume "0 < c"
  then obtain c' where c: "c = Suc c'" by (cases c) auto
  have "chunks c (prod_list sp) (replicate (c * prod_list sp) 0)
        = replicate c (replicate (prod_list sp) (0::real))"
    by (rule chunks_replicate)
  then show ?thesis
    unfolding c by (simp add: max_dim0_def zeros_def foldl_max_zero_rows del: chunks.simps)
qed

text \<open>
  C4. For a model with no qualifying layer (no 2D convolution with 3 input channels), a
  call on a batched image (shape \<open>n # c # sp\<close> with a first batch element, and at least
  one channel when the maximum is asked for) that line 62 accepts and whose forward
  pass, seed construction and backward pass succeed raises no error and returns the
  uniformly zero tensor: zeros of shape \<open>c # sp\<close>, or of shape \<open>1 # sp\<close> with
  \<^verbatim>\<open>take_max=True\<close>.
\<close>

theorem no_qualifying_layer_gives_zeros:
  assumes "constructed_on m s"
    and "\<forall>nm \<in> set (named_modules m). \<not> qualifies (snd nm)"
    and "a < length st"
    and "accepts_requires_grad s st a"
    and "shape (val (st ! a)) = n # c # sp" and "0 < n" and "take_max \<longrightarrow> 0 < c"
    and "forward m (val (st ! a)) = Some out"
    and "target_seed out target_class = Inr seed"
    and "backward m (val (st ! a)) seed = Some (evs, ig)"
  shows "fst (calculate_gradient s st a target_class take_max)
       = Inr (zeros ((if take_max then 1 else c) # sp))"
proof -
  from assms(1,2) have h: "hooks s = []" by (rule no_qualifying_no_hooks)
  from assms(1) have m: "bp_model s = m" by (simp add: constructed_on_def)
  have "fst (calculate_gradient s st a target_class take_max)
        = select_gradient (zeros (n # c # sp)) take_max"
    using assms(4,5,8,9,10) h m
    by (simp add: calc_fst[OF assms(3)] fired_def hook_result_def)
  also have "\<dots> = Inr (zeros ((if take_max then 1 else c) # sp))"
    using assms(6,7) by (simp add: select_gradient_def select0_zeros max_dim0_zeros)
  finally show ?thesis .
qed

text \<open>
  The single-channel model: the backward pass crosses its convolution, but no hook is
  registered there, and the call returns zeros.
\<close>

theorem no_qualifying_layer_gives_zeros_witness:
  "constructed_on grey_model (init grey_model False)
   \<and> (0::nat) < length grey_store
   \<and> accepts_requires_grad (init grey_model False) grey_store 0
   \<and> shape (val (grey_store ! 0)) = [1, 1, 1, 2]
   \<and> fst (calculate_gradient (init grey_model False) grey_store 0 1 True)
       = Inr \<lparr>shape = [1, 1, 2], data = [0, 0]\<rparr>"
proof -
  let ?seed = "\<lparr>shape = [1, 2], data = [0, 1]\<rparr> :: tensor"
  let ?g = "?seed\<lparr>shape := [1, 1, 1, 2]\<rparr>"
  have h1: "constructed_on grey_model (init grey_model False)"
    by (rule constructed_on_init)
  have h2: "\<forall>nm \<in> set (named_modules grey_model). \<not> qualifies (snd nm)"
    by (simp add: grey_model_def)
  have h3: "(0::nat) < length grey_store" by (simp add: grey_store_def)
  have ha: "accepts_requires_grad (init grey_model False) grey_store 0"
    by (simp add: eval_defs)
  have h4: "shape (val (grey_store ! 0)) = 1 # 1 # [1, 2]" by (simp add: grey_store_def)
  have h5: "(0::nat) < 1" by simp
  have h6: "True \<longrightarrow> (0::nat) < 1" by simp
  have h7: "forward grey_model (val (grey_store ! 0)) = Some \<lparr>shape = [1, 2], data = [5, 7]\<rparr>"
    by (simp add: grey_model_def grey_store_def)
  have h8: "target_seed \<lparr>shape = [1, 2], data = [5, 7]\<rparr> 1 = Inr ?seed"
    by (simp add: eval_defs)
  have h9: "backward grey_model (val (grey_store ! 0)) ?seed
     = Some ([\<lparr>ev_module = 2, grad_in = [Some ?seed], grad_out = [Some ?seed]\<rparr>,
              \<lparr>ev_module = 1, grad_in = [Some ?g], grad_out = [Some ?g]\<rparr>], Some ?g)"
    by (simp add: grey_model_def)
  have z: "zeros ((if True then 1 else 1) # [1, 2]) = \<lparr>shape = [1, 1, 2], data = [0, 0]\<rparr>"
    by (simp add: eval_defs)
  from no_qualifying_layer_gives_zeros[OF h1 h2 h3 ha h4 h5 h6 h7 h8 h9] h1 h3 ha h4 z
  show ?thesis by simp
qed

section \<open>The seed\<close>

lemma target_seed_fails:
  "shape out \<noteq> [] \<Longrightarrow>
   (target_seed out tc = Inl SeedError)
     = (tc < - int (last (shape out)) \<or> int (last (shape out)) \<le> tc)"
  by (auto simp: target_seed_def py_index_def Let_def)

lemma target_seed_error: "target_seed out tc = Inl e \<Longrightarrow> e = SeedError"
  by (auto simp: target_seed_def Let_def split: if_splits option.splits)

lemma target_seed_class:
  assumes "shape out \<noteq> []" "0 \<le> tc" "tc < int (last (shape out))"
  shows "target_seed out tc
     = Inr \<lparr>shape = [1, last (shape out)],
            data = (replicate (last (shape out)) 0)[nat tc := 1]\<rparr>"
  using assms by (simp add: target_seed_def py_index_def zeros_def)

lemma target_seed_negative:
  assumes "shape out \<noteq> []" "- int (last (shape out)) \<le> tc" "tc < 0"
  shows "target_seed out tc = target_seed out (tc + int (last (shape out)))"
  using assms by (simp add: target_seed_def py_index_def Let_def)

lemma calc_same_seed:
  assumes "a < length st" "accepts_requires_grad s st a"
    and "forward (bp_model s) (val (st ! a)) = Some out"
    and "target_seed out tc = target_seed out tc'"
  shows "calculate_gradient s st a tc tm = calculate_gradient s st a tc' tm"
proof -
  from prepare_accepted[OF assms(1,2)] obtain inp st2 where
    p: "prepare s st a = (Inr inp, s\<lparr>gradient := Some (zeros (shape (val (st ! a))))\<rparr>, st2)"
       "val (st2 ! inp) = val (st ! a)" by blast
  with assms(1,3,4) show ?thesis
    by (simp add: calculate_gradient_def)
qed

text \<open>
  C5, as the code has it. With \<open>num_classes\<close> the last dimension of the model's output,
  a call that reaches the seed fails at the seed indexing exactly when
  \<open>target_class < - num_classes\<close> or \<open>target_class \<ge> num_classes\<close>. The classes \<open>0\<close> to
  \<open>num_classes - 1\<close> pass, with 1 at the position of the class, and so do the negative
  indices \<open>- num_classes\<close> to \<open>-1\<close>, which count from the end: the call with such a
  \<open>target_class\<close> is the call with \<open>target_class + num_classes\<close>.
\<close>

theorem seed_failure_range:
  assumes "a < length st" and "accepts_requires_grad s st a"
    and "forward (bp_model s) (val (st ! a)) = Some out"
    and "shape out \<noteq> []"
  shows "((fst (calculate_gradient s st a target_class take_max) = Inl SeedError)
           = (target_class < - int (last (shape out)) \<or> int (last (shape out)) \<le> target_class))
       \<and> (0 \<le> target_class \<and> target_class < int (last (shape out)) \<longrightarrow>
            target_seed out target_class
              = Inr \<lparr>shape = [1, last (shape out)],
                     data = (replicate (last (shape out)) 0)[nat target_class := 1]\<rparr>)
       \<and> (- int (last (shape out)) \<le> target_class \<and> target_class < 0 \<longrightarrow>
            target_seed out target_class
              = target_seed out (target_class + int (last (shape out)))
          \<and> calculate_gradient s st a target_class take_max
              = calculate_gradient s st a (target_class + int (last (shape out))) take_max)"
proof (intro conjI impI)
  show "(fst (calculate_gradient s st a target_class take_max) = Inl SeedError)
           = (target_class < - int (last (shape out)) \<or> int (last (shape out)) \<le> target_class)"
  proof (cases "target_seed out target_class")
    case (Inl e)
    then have "e = SeedError" by (rule target_seed_error)
    with Inl target_seed_fails[OF assms(4), of target_class] assms(2,3) show ?thesis
      by (simp add: calc_fst[OF assms(1)])
  next
    case (Inr seed)
    with target_seed_fails[OF assms(4), of target_class]
    have "\<not> (target_class < - int (last (shape out)) \<or> int (last (shape out)) \<le> target_class)"
      by simp
    moreover have "fst (calculate_gradient s st a target_class take_max) \<noteq> Inl SeedError"
      using Inr assms(2,3) hook_result_not_seed
      by (simp add: calc_fst[OF assms(1)] split: option.splits prod.splits)
    ultimately show ?thesis by simp
  qed
next
  assume "0 \<le> target_class \<and> target_class < int (last (shape out))"
  with assms(4) show "target_seed out target_class
              = Inr \<lparr>shape = [1, last (shape out)],
                     data = (replicate (last (shape out)) 0)[nat target_class := 1]\<rparr>"
    by (simp add: target_seed_class)
next
  assume neg: "- int (last (shape out)) \<le> target_class \<and> target_class < 0"
  with assms(4) show eq: "target_seed out target_class
              = target_seed out (target_class + int (last (shape out)))"
    by (simp add: target_seed_negative)
  from calc_same_seed[OF assms(1,2,3) eq]
  show "calculate_gradient s st a target_class take_max
              = calculate_gradient s st a (target_class + int (last (shape out))) take_max" .
qed

text \<open>
  The toy model has 2 classes: class 2 fails at the seed, class 1 does not, and
  \<open>target_class = -1\<close> is the call for class 1.
\<close>

theorem seed_failure_range_witness:
  "(0::nat) < length toy_store
   \<and> accepts_requires_grad (init toy_model False) toy_store 0
   \<and> forward (bp_model (init toy_model False)) (val (toy_store ! 0))
       = Some \<lparr>shape = [1, 2], data = [22, 28]\<rparr>
   \<and> fst (calculate_gradient (init toy_model False) toy_store 0 2 False) = Inl SeedError
   \<and> fst (calculate_gradient (init toy_model False) toy_store 0 1 False) \<noteq> Inl SeedError
   \<and> target_seed \<lparr>shape = [1, 2], data = [22, 28]\<rparr> 1 = Inr \<lparr>shape = [1, 2], data = [0, 1]\<rparr>
   \<and> calculate_gradient (init toy_model False) toy_store 0 (- 1) False
       = calculate_gradient (init toy_model False) toy_store 0 1 False"
proof -
  let ?out = "\<lparr>shape = [1, 2], data = [22, 28]\<rparr> :: tensor"
  have h1: "(0::nat) < length toy_store" by (simp add: toy_store_def)
  have h2: "accepts_requires_grad (init toy_model False) toy_store 0"
    by (simp add: eval_defs)
  have h3: "forward (bp_model (init toy_model False)) (val (toy_store ! 0)) = Some ?out"
    by (simp add: eval_defs)
  have h4: "shape ?out \<noteq> []" by simp
  have l: "last (shape ?out) = 2" by simp
  have r: "(replicate 2 (0::real))[nat 1 := 1] = [0, 1]" by (simp add: numeral_2_eq_2)
  from seed_failure_range[OF h1 h2 h3 h4, of 2 False]
       seed_failure_range[OF h1 h2 h3 h4, of 1 False]
       seed_failure_range[OF h1 h2 h3 h4, of "- 1" False]
       h1 h2 h3
  show ?thesis unfolding l r by simp
qed

text \<open>
  Against C5 as stated: \<open>-1\<close> is outside \<open>0 \<le> target_class < 2\<close>, and the call on the
  toy model with \<open>target_class = -1\<close> raises nothing; it returns the gradient of class 1.
\<close>

theorem negative_class_index_succeeds:
  "forward (bp_model (init toy_model False)) (val (toy_store ! 0))
     = Some \<lparr>shape = [1, 2], data = [22, 28]\<rparr>
   \<and> \<not> (0 \<le> (- 1 :: int) \<and> (- 1 :: int) < 2)
   \<and> fst (calculate_gradient (init toy_model False) toy_store 0 (- 1) False)
     = Inr \<lparr>shape = [3, 1, 2], data = [0, 1, 0, 2, 0, 3]\<rparr>"
  by (simp add: eval_defs)

lemma calc_backward_none:
  assumes "a < length st" "accepts_requires_grad s st a"
    and "forward (bp_model s) (val (st ! a)) = Some out"
    and "target_seed out tc = Inr seed"
    and "backward (bp_model s) (val (st ! a)) seed = None"
  shows "fst (calculate_gradient s st a tc tm) = Inl BackwardError"
  using assms by (simp add: calc_fst)

lemma calc_backward_effects:
  assumes "a < length st" "accepts_requires_grad s st a"
    and "forward (bp_model s) (val (st ! a)) = Some out"
    and "target_seed out tc = Inr seed"
    and "backward (bp_model s) (val (st ! a)) seed = Some (evs, ig)"
    and "fst (run_hooks (s\<lparr>gradient := Some (zeros (shape (val (st ! a))))\<rparr>)
               (fired (hooks s) evs)) = None"
  shows "gradient (fst (snd (calculate_gradient s st a tc tm)))
           = gradient (snd (run_hooks (s\<lparr>gradient := Some (zeros (shape (val (st ! a))))\<rparr>)
                              (fired (hooks s) evs)))
       \<and> grad (snd (snd (calculate_gradient s st a tc tm)) ! fst (tensor_to st a (device s)))
           = (case ig of
                None \<Rightarrow> grad (snd (tensor_to st a (device s)) ! fst (tensor_to st a (device s)))
              | Some g \<Rightarrow>
                  Some (case grad (snd (tensor_to st a (device s))
                                     ! fst (tensor_to st a (device s))) of
                          None \<Rightarrow> g
                        | Some old \<Rightarrow> tensor_add old g))"
proof -
  let ?s1 = "s\<lparr>gradient := Some (zeros (shape (val (st ! a))))\<rparr>"
  let ?inp = "fst (tensor_to st a (device s))"
  let ?st1 = "snd (tensor_to st a (device s))"
  from prepare_accepted[OF assms(1,2)] obtain st2 where
    p: "prepare s st a = (Inr ?inp, ?s1, st2)"
       "st2 = ?st1[?inp := (?st1 ! ?inp)\<lparr>requires_grad := True\<rparr>]"
       "?inp < length st2" "val (st2 ! ?inp) = val (st ! a)" by blast
  obtain s2 where rh: "run_hooks ?s1 (fired (hooks s) evs) = (None, s2)"
    using assms(6) by (cases "run_hooks ?s1 (fired (hooks s) evs)") auto
  from run_hooks_frame[OF rh, of "zeros (shape (val (st ! a)))"] obtain b where
    b: "gradient s2 = Some b" by auto
  have c: "calculate_gradient s st a tc tm
      = (select_gradient b tm, s2, accumulate_grad st2 ?inp ig)"
    using assms(1,3,4,5) p(1,4) rh b
    by (simp add: calculate_gradient_def backward_and_select_def)
  have len: "?inp < length ?st1" using p(2,3) by simp
  have "grad (accumulate_grad st2 ?inp ig ! ?inp)
      = (case ig of
           None \<Rightarrow> grad (?st1 ! ?inp)
         | Some g \<Rightarrow>
             Some (case grad (?st1 ! ?inp) of None \<Rightarrow> g | Some old \<Rightarrow> tensor_add old g))"
    unfolding p(2) using len by (cases ig) (simp_all add: accumulate_grad_def)
  with c rh show ?thesis by simp
qed

text \<open>
  C6. A call that reaches line 73 builds its seed from the output and the target class
  alone: for a target class \<open>0 \<le> target_class < num_classes\<close> it has shape
  \<open>(1, num_classes)\<close> with \<open>num_classes = output.shape[-1]\<close>, holds 1 at the target class
  and 0 at every other index. The call runs exactly one backward pass, started from this
  seed: if the engine raises on it, so does the call; otherwise the registered hooks are
  run on the events of that pass and, unless a hook raises, the buffer is as they leave
  it and the input gradient of that pass has been added to the \<^verbatim>\<open>.grad\<close> of
  \<^verbatim>\<open>input_\<close> once.
\<close>

theorem seed_is_one_hot:
  assumes "a < length st" and "accepts_requires_grad s st a"
    and "forward (bp_model s) (val (st ! a)) = Some out"
    and "shape out \<noteq> []"
    and "0 \<le> target_class" and "target_class < int (last (shape out))"
  shows "\<exists>seed. target_seed out target_class = Inr seed
     \<and> shape seed = [1, last (shape out)]
     \<and> length (data seed) = last (shape out)
     \<and> data seed ! nat target_class = 1
     \<and> (\<forall>j < last (shape out). j \<noteq> nat target_class \<longrightarrow> data seed ! j = 0)
     \<and> (backward (bp_model s) (val (st ! a)) seed = None \<longrightarrow>
          fst (calculate_gradient s st a target_class take_max) = Inl BackwardError)
     \<and> (\<forall>evs ig. backward (bp_model s) (val (st ! a)) seed = Some (evs, ig) \<longrightarrow>
          fst (run_hooks (s\<lparr>gradient := Some (zeros (shape (val (st ! a))))\<rparr>)
                 (fired (hooks s) evs)) = None \<longrightarrow>
            gradient (fst (snd (calculate_gradient s st a target_class take_max)))
              = gradient (snd (run_hooks (s\<lparr>gradient := Some (zeros (shape (val (st ! a))))\<rparr>)
                                 (fired (hooks s) evs)))
          \<and> grad (snd (snd (calculate_gradient s st a target_class take_max))
                    ! fst (tensor_to st a (device s)))
              = (case ig of
                   None \<Rightarrow> grad (snd (tensor_to st a (device s))
                                   ! fst (tensor_to st a (device s)))
                 | Some g \<Rightarrow>
                     Some (case grad (snd (tensor_to st a (device s))
                                        ! fst (tensor_to st a (device s))) of
                             None \<Rightarrow> g
                           | Some old \<Rightarrow> tensor_add old g)))"
proof -
  let ?n = "last (shape out)"
  let ?seed = "\<lparr>shape = [1, ?n], data = (replicate ?n (0::real))[nat target_class := 1]\<rparr>"
  from assms(4-6) have ts: "target_seed out target_class = Inr ?seed"
    by (rule target_seed_class)
  have one: "data ?seed ! nat target_class = 1" using assms(5,6) by simp
  have none: "fst (calculate_gradient s st a target_class take_max) = Inl BackwardError"
    if "backward (bp_model s) (val (st ! a)) ?seed = None"
    using calc_backward_none[OF assms(1,2,3) ts that] .
  note eff = calc_backward_effects[OF assms(1,2,3) ts, of _ _ take_max]
  show ?thesis
    apply (rule exI[of _ ?seed])
    using ts one none eff by simp
qed

text \<open>
  On the toy model the seed of class 1 is the row (0, 1); after the call the caller's
  tensor, which had no \<^verbatim>\<open>.grad\<close>, holds the input gradient of that one pass.
\<close>

theorem seed_is_one_hot_witness:
  "(0::nat) < length toy_store
   \<and> accepts_requires_grad (init toy_model False) toy_store 0
   \<and> forward (bp_model (init toy_model False)) (val (toy_store ! 0))
       = Some \<lparr>shape = [1, 2], data = [22, 28]\<rparr>
   \<and> (0::int) \<le> 1 \<and> (1::int) < int (last [1, 2])
   \<and> target_seed \<lparr>shape = [1, 2], data = [22, 28]\<rparr> 1 = Inr \<lparr>shape = [1, 2], data = [0, 1]\<rparr>
   \<and> grad (snd (snd (calculate_gradient (init toy_model False) toy_store 0 1 False)) ! 0)
       = Some \<lparr>shape = [1, 3, 1, 2], data = [0, 1, 0, 2, 0, 3]\<rparr>"
proof -
  let ?out = "\<lparr>shape = [1, 2], data = [22, 28]\<rparr> :: tensor"
  have h1: "(0::nat) < length toy_store" by (simp add: toy_store_def)
  have h2: "accepts_requires_grad (init toy_model False) toy_store 0"
    by (simp add: eval_defs)
  have h3: "forward (bp_model (init toy_model False)) (val (toy_store ! 0)) = Some ?out"
    by (simp add: eval_defs)
  have h4: "shape ?out \<noteq> []" by simp
  have h5: "(0::int) \<le> 1" by simp
  have h6: "(1::int) < int (last (shape ?out))" by simp
  have v: "target_seed ?out 1 = Inr \<lparr>shape = [1, 2], data = [0, 1]\<rparr>"
    by (simp add: eval_defs)
  have g: "grad (snd (snd (calculate_gradient (init toy_model False) toy_store 0 1 False)) ! 0)
       = Some \<lparr>shape = [1, 3, 1, 2], data = [0, 1, 0, 2, 0, 3]\<rparr>"
    by (simp add: eval_defs)
  from seed_is_one_hot[OF h1 h2 h3 h4 h5 h6, of False] h1 h2 h3 v g show ?thesis by simp
qed

section \<open>One qualifying convolution\<close>




section \<open>Successive calls\<close>

lemma accumulate_grad_frame:
  "length (accumulate_grad st l ig) = length st
   \<and> val (accumulate_grad st l ig ! b) = val (st ! b)
   \<and> dev (accumulate_grad st l ig ! b) = dev (st ! b)
   \<and> is_leaf (accumulate_grad st l ig ! b) = is_leaf (st ! b)
   \<and> is_floating (accumulate_grad st l ig ! b) = is_floating (st ! b)
   \<and> requires_grad (accumulate_grad st l ig ! b) = requires_grad (st ! b)"
  by (cases "l < length st")
     (auto simp: accumulate_grad_def nth_list_update list_update_beyond split: option.splits)

lemma call_store_cases:
  assumes "a < length st" and "accepts_requires_grad s st a"
    and "calculate_gradient s st a tc tm = (r, s', st')"
  shows "\<exists>inp st2. prepare s st a
             = (Inr inp, s\<lparr>gradient := Some (zeros (shape (val (st ! a))))\<rparr>, st2)
         \<and> (st' = st2 \<or> (\<exists>ig. st' = accumulate_grad st2 inp ig))
         \<and> bp_model s' = bp_model s \<and> hooks s' = hooks s \<and> device s' = device s"
proof -
  let ?s1 = "s\<lparr>gradient := Some (zeros (shape (val (st ! a))))\<rparr>"
  from prepare_accepted[OF assms(1,2)] obtain inp st2 where
    p: "prepare s st a = (Inr inp, ?s1, st2)" by blast
  have frame: "bp_model s2 = bp_model s \<and> hooks s2 = hooks s \<and> device s2 = device s"
    if "run_hooks ?s1 evs = (e, s2)" for evs e s2
    using run_hooks_frame[OF that, of "zeros (shape (val (st ! a)))"] by simp
  have "(st' = st2 \<or> (\<exists>ig. st' = accumulate_grad st2 inp ig))
         \<and> bp_model s' = bp_model s \<and> hooks s' = hooks s \<and> device s' = device s"
    using assms(1,3) p
    by (auto simp: calculate_gradient_def backward_and_select_def Let_def
             split: option.splits sum.splits prod.splits dest!: frame)
  with p show ?thesis by blast
qed

lemma successive_frame:
  assumes "a < length st" "calculate_gradient s st a tc tm = (r, s', st')"
  shows "bp_model s' = bp_model s \<and> hooks s' = hooks s \<and> a < length st'
       \<and> val (st' ! a) = val (st ! a)
       \<and> accepts_requires_grad s' st' a = accepts_requires_grad s st a"
proof (cases "accepts_requires_grad s st a")
  case False
  from prepare_refused[OF assms(1) False] assms
  have "s' = s" "st' = snd (tensor_to st a (device s))"
    by (auto simp: calculate_gradient_def)
  with assms(1) have "s' = s" "a < length st'" "st' ! a = st ! a"
    by (simp_all add: tensor_to_def nth_append)
  then show ?thesis by (simp add: accepts_requires_grad_def)
next
  case True
  from call_store_cases[OF assms(1) True assms(2)] obtain inp st2 where
    p: "prepare s st a = (Inr inp, s\<lparr>gradient := Some (zeros (shape (val (st ! a))))\<rparr>, st2)"
    and st': "st' = st2 \<or> (\<exists>ig. st' = accumulate_grad st2 inp ig)"
    and fr: "bp_model s' = bp_model s" "hooks s' = hooks s" "device s' = device s"
    by blast
  have st2: "a < length st2 \<and> val (st2 ! a) = val (st ! a) \<and> dev (st2 ! a) = dev (st ! a)
      \<and> is_leaf (st2 ! a) = is_leaf (st ! a) \<and> is_floating (st2 ! a) = is_floating (st ! a)
      \<and> (dev (st ! a) \<noteq> device s \<longrightarrow> requires_grad (st2 ! a) = requires_grad (st ! a))"
    using p assms(1) True
    by (auto simp: prepare_def tensor_to_def set_requires_grad_def accepts_requires_grad_def
                   Let_def nth_append nth_list_update split: if_splits)
  from st' have "a < length st' \<and> val (st' ! a) = val (st ! a) \<and> dev (st' ! a) = dev (st ! a)
      \<and> is_leaf (st' ! a) = is_leaf (st ! a) \<and> is_floating (st' ! a) = is_floating (st ! a)
      \<and> (dev (st ! a) \<noteq> device s \<longrightarrow> requires_grad (st' ! a) = requires_grad (st ! a))"
  proof
    assume "st' = st2"
    with st2 show ?thesis by simp
  next
    assume "\<exists>ig. st' = accumulate_grad st2 inp ig"
    then obtain ig where "st' = accumulate_grad st2 inp ig" ..
    with st2 accumulate_grad_frame[of st2 inp ig a] show ?thesis by simp
  qed
  with fr show ?thesis by (simp add: accepts_requires_grad_def)
qed

text \<open>
  C8. The model being a fixed function of the input values, two successive calls on the
  same extractor with the same input tensor and the same target class return the same
  result: the second call, run on the extractor and the store as the first one left
  them, returns what the first returned.
\<close>

theorem successive_calls_agree:
  "(case calculate_gradient s st a target_class take_max of
      (r1, s1, st1) \<Rightarrow> fst (calculate_gradient s1 st1 a target_class take_max) = r1)"
proof (cases "a < length st")
  case False
  then show ?thesis by (simp add: calculate_gradient_def)
next
  case True
  obtain r1 s1 st1 where c: "calculate_gradient s st a target_class take_max = (r1, s1, st1)"
    by (cases "calculate_gradient s st a target_class take_max") auto
  from successive_frame[OF True c] have
    f: "bp_model s1 = bp_model s" "hooks s1 = hooks s" "a < length st1"
       "val (st1 ! a) = val (st ! a)"
       "accepts_requires_grad s1 st1 a = accepts_requires_grad s st a"
    by auto
  from result_depends[OF f(3) True f(1,2,4,5), of target_class take_max] c
  show ?thesis by simp
qed

section \<open>The shape of the result\<close>

text \<open>
  C9. A hook call that observes a gradient \<open>g\<close> replaces the buffer by \<open>g\<close> exactly when
  the shape of \<open>g\<close> equals the buffer's current shape, and changes nothing otherwise.
  Consequently the tensor a call with \<^verbatim>\<open>take_max=False\<close> returns always has the shape
  of the input image without its batch dimension, whichever hooks fired.
\<close>

theorem result_has_input_shape:
  "(gradient s = Some buf \<longrightarrow> grad_in ev = Some g # rest \<longrightarrow>
      record_gradient s ev = Inr (if shape buf = shape g then s\<lparr>gradient := Some g\<rparr> else s))
   \<and> (fst (calculate_gradient s st a target_class False) = Inr r \<longrightarrow>
      shape r = tl (shape (val (st ! a))))"
proof (intro conjI impI)
  assume "gradient s = Some buf" "grad_in ev = Some g # rest"
  then show "record_gradient s ev
      = Inr (if shape buf = shape g then s\<lparr>gradient := Some g\<rparr> else s)"
    by (simp add: record_gradient_def)
next
  assume "fst (calculate_gradient s st a target_class False) = Inr r"
  then show "shape r = tl (shape (val (st ! a)))"
    by (rule result_shape_False)
qed

text \<open>
  On the single-channel model no hook fires; a hook that were shown a gradient of the
  score vector's shape (1, 2) would leave the image-shaped buffer alone. The result has
  shape (1, 1, 2).
\<close>

theorem result_has_input_shape_witness:
  "gradient ((init grey_model False)\<lparr>gradient := Some (zeros [1, 1, 1, 2])\<rparr>)
     = Some (zeros [1, 1, 1, 2])
   \<and> record_gradient ((init grey_model False)\<lparr>gradient := Some (zeros [1, 1, 1, 2])\<rparr>)
       \<lparr>ev_module = 2, grad_in = [Some \<lparr>shape = [1, 2], data = [0, 1]\<rparr>], grad_out = []\<rparr>
     = Inr ((init grey_model False)\<lparr>gradient := Some (zeros [1, 1, 1, 2])\<rparr>)
   \<and> fst (calculate_gradient ((init grey_model False)\<lparr>gradient := Some (zeros [1, 1, 1, 2])\<rparr>)
            grey_store 0 1 False)
     = Inr \<lparr>shape = [1, 1, 2], data = [0, 0]\<rparr>
   \<and> tl (shape (val (grey_store ! 0))) = [1, 1, 2]"
proof -
  let ?s = "(init grey_model False)\<lparr>gradient := Some (zeros [1, 1, 1, 2])\<rparr>"
  let ?t = "\<lparr>shape = [1, 2], data = [0, 1]\<rparr> :: tensor"
  let ?ev = "\<lparr>ev_module = 2, grad_in = [Some ?t], grad_out = []\<rparr> :: hook_event"
  let ?r = "\<lparr>shape = [1, 1, 2], data = [0, 0]\<rparr> :: tensor"
  have h1: "gradient ?s = Some (zeros [1, 1, 1, 2])" by simp
  have h2: "grad_in ?ev = Some ?t # []" by simp
  have h3: "fst (calculate_gradient ?s grey_store 0 1 False) = Inr ?r"
    by (simp add: eval_defs)
  have ne: "shape (zeros [1, 1, 1, 2]) \<noteq> shape ?t" by (simp add: zeros_def)
  have tl: "tl (shape (val (grey_store ! 0))) = [1, 1, 2]" by (simp add: grey_store_def)
  from result_has_input_shape[where s = ?s and buf = "zeros [1, 1, 1, 2]" and ev = ?ev
         and g = ?t and rest = "[]" and st = grey_store and a = 0 and target_class = 1
         and r = ?r] h1 h2 h3 ne tl
  show ?thesis by simp
qed

section \<open>The caller's tensor\<close>





end
